theory Spec2Isabelle
  imports Complex_Main
begin

section \<open>Session rows and the hosted table\<close>

text \<open>
  A timestamp is an ISO-8601 string in the dashboard and a \<open>timestamptz\<close> in the
  database; here it is the number of milliseconds since the epoch, so that the range
  comparisons of the session query are comparisons of integers.
\<close>

type_synonym instant = int

text \<open>
  The status column: the union type of \<open>Session.status\<close> in the session list and the
  check constraint \<open>sessions_status_check\<close>.
\<close>

datatype session_status = Active | Connecting | Connected | Completed | Error

fun status_text :: "session_status \<Rightarrow> string" where
  "status_text Active = ''active''"
| "status_text Connecting = ''connecting''"
| "status_text Connected = ''connected''"
| "status_text Completed = ''completed''"
| "status_text Error = ''error''"

text \<open>
  One row of the table \<open>sessions\<close>, with the columns of the migrations and of the
  row type in \<open>database.types.ts\<close>. The flags \<open>is_relevant\<close> and \<open>is_archived\<close> are
  added by the migration as \<open>boolean DEFAULT false\<close> without \<open>NOT NULL\<close>: a flag can be
  null, which is \<open>None\<close> here.
\<close>

record session =
  id_col :: string
  session_id :: string
  start_time :: instant
  end_time :: "instant option"
  status :: session_status
  heygen_status :: "string option"
  last_sync_at :: "instant option"
  created_at :: instant
  updated_at :: instant
  is_relevant :: "bool option"
  is_archived :: "bool option"
  deleted_at :: "instant option"

text \<open>
  The column \<open>duration\<close> is generated by the database from \<open>end_time - start_time\<close>;
  it is a function of the row, in milliseconds.
\<close>

definition duration :: "session \<Rightarrow> int option" where
  "duration s = map_option (\<lambda>e. e - start_time s) (end_time s)"

subsection \<open>Requests to the hosted database\<close>

text \<open>
  Every call of the Supabase client resolves to a pair of data and error. Whether the
  backend refuses a request (network, policy, constraint) is decided outside the
  dashboard: a \<open>backend\<close> says for each request whether it is refused. A refused
  request leaves the tables as they are.

  The trash migration also installs a statement trigger on \<open>sessions\<close> that deletes
  the rows which have been in the trash for more than thirty days. Its function runs
  with the rights of the caller, and row security is enabled on \<open>sessions\<close> with
  policies for \<open>SELECT\<close> and \<open>UPDATE\<close> only, so for the signed-in user of the
  dashboard its \<open>DELETE\<close> reaches no row. An accepted update therefore has no effect
  beyond its patch.
\<close>

datatype db_request =
    SelectActiveSessions
  | QuerySessions
  | UpdateSession string
  | SelectSession string
  | SelectMessages string
  | InsertMessage string string
  | InsertStats string

type_synonym backend = "db_request \<Rightarrow> bool"

text \<open>
  \<open>supabase.from('sessions').update(patch).eq('session_id', sid)\<close>: the patch is applied
  to every row whose \<open>session_id\<close> is \<open>sid\<close>. The first component of the result says
  whether the call reported an error.
\<close>

definition update_sessions ::
  "backend \<Rightarrow> (session \<Rightarrow> session) \<Rightarrow> string \<Rightarrow> session list \<Rightarrow> bool \<times> session list" where
  "update_sessions be patch sid tbl =
     (if be (UpdateSession sid) then (True, tbl)
      else (False, map (\<lambda>r. if session_id r = sid then patch r else r) tbl))"

section \<open>Lifecycle handlers of the session list\<close>

text \<open>
  What a handler did: it returned at its guard, it caught an error and showed it, or it
  ran to the end of its \<open>try\<close> block.
\<close>

datatype outcome = Skipped | Failed | Done

text \<open>
  The four flag handlers share one shape: return when \<open>updatingSession\<close> is the session
  at hand, otherwise send one update and throw on its error. \<open>updatingSession\<close> is the
  value of the React state the handler closed over.
\<close>

definition flag_update ::
  "backend \<Rightarrow> string option \<Rightarrow> string \<Rightarrow> (session \<Rightarrow> session) \<Rightarrow> session list
   \<Rightarrow> outcome \<times> session list" where
  "flag_update be updatingSession sessionId patch tbl =
     (if updatingSession = Some sessionId then (Skipped, tbl)
      else (case update_sessions be patch sessionId tbl of
              (True, tbl') \<Rightarrow> (Failed, tbl')
            | (False, tbl') \<Rightarrow> (Done, tbl')))"

text \<open>
  \<open>!currentValue\<close>, where the caller passes the flag of the listed row: \<open>true\<close> for a null
  flag as for \<open>false\<close>.
\<close>

definition js_not :: "bool option \<Rightarrow> bool" where
  "js_not v = (case v of Some True \<Rightarrow> False | _ \<Rightarrow> True)"

definition handleToggleRelevant ::
  "backend \<Rightarrow> string option \<Rightarrow> string \<Rightarrow> bool option \<Rightarrow> session list
   \<Rightarrow> outcome \<times> session list" where
  "handleToggleRelevant be updatingSession sessionId currentValue tbl =
     flag_update be updatingSession sessionId (\<lambda>r. r\<lparr>is_relevant := Some (js_not currentValue)\<rparr>) tbl"

definition handleToggleArchived ::
  "backend \<Rightarrow> string option \<Rightarrow> string \<Rightarrow> bool option \<Rightarrow> session list
   \<Rightarrow> outcome \<times> session list" where
  "handleToggleArchived be updatingSession sessionId currentValue tbl =
     flag_update be updatingSession sessionId (\<lambda>r. r\<lparr>is_archived := Some (js_not currentValue)\<rparr>) tbl"

text \<open>\<open>now\<close> is the reading of the clock by \<open>new Date()\<close>.\<close>

definition handleMoveToTrash ::
  "backend \<Rightarrow> instant \<Rightarrow> string option \<Rightarrow> string \<Rightarrow> session list \<Rightarrow> outcome \<times> session list" where
  "handleMoveToTrash be now updatingSession sessionId tbl =
     flag_update be updatingSession sessionId (\<lambda>r. r\<lparr>deleted_at := Some now\<rparr>) tbl"

definition handleRestoreFromTrash ::
  "backend \<Rightarrow> string option \<Rightarrow> string \<Rightarrow> session list \<Rightarrow> outcome \<times> session list" where
  "handleRestoreFromTrash be updatingSession sessionId tbl =
     flag_update be updatingSession sessionId (\<lambda>r. r\<lparr>deleted_at := None\<rparr>) tbl"

section \<open>The session query and its view modes\<close>

datatype view_mode = ACTIVE | ARCHIVED | TRASH

text \<open>
  The \<open>switch\<close> on the view mode in \<open>fetchSessions\<close>. A filter \<open>eq('is_archived', v)\<close>
  is the comparison \<open>is_archived = v\<close> of the database, which a null flag does not
  satisfy for either value.
\<close>

fun view_matches :: "view_mode \<Rightarrow> session \<Rightarrow> bool" where
  "view_matches ACTIVE s = (is_archived s = Some False \<and> deleted_at s = None)"
| "view_matches ARCHIVED s = (is_archived s = Some True \<and> deleted_at s = None)"
| "view_matches TRASH s = (deleted_at s \<noteq> None)"

text \<open>The date range and the status filter, which do not depend on the view mode.\<close>

definition in_filter_and_range :: "string \<Rightarrow> instant \<Rightarrow> instant \<Rightarrow> session \<Rightarrow> bool" where
  "in_filter_and_range flt startDate endDate s =
     (startDate \<le> start_time s \<and> start_time s \<le> endDate \<and>
      (if flt \<noteq> ''all'' then status_text (status s) = flt else True))"

definition query_matches ::
  "string \<Rightarrow> instant \<Rightarrow> instant \<Rightarrow> view_mode \<Rightarrow> session \<Rightarrow> bool" where
  "query_matches flt startDate endDate viewMode s =
     (in_filter_and_range flt startDate endDate s \<and> view_matches viewMode s)"

text \<open>
  The rows \<open>fetchSessions\<close> puts into the list: the matching rows, latest start first;
  \<open>None\<close> when the query reports an error and the list on screen stays as it was.
\<close>

definition fetchSessions ::
  "backend \<Rightarrow> string \<Rightarrow> instant \<Rightarrow> instant \<Rightarrow> view_mode \<Rightarrow> session list
   \<Rightarrow> session list option" where
  "fetchSessions be flt startDate endDate viewMode tbl =
     (if be QuerySessions then None
      else Some (rev (sort_key start_time (filter (query_matches flt startDate endDate viewMode) tbl))))"

section \<open>Messages\<close>

text \<open>One row of the table \<open>messages\<close>; \<open>sender\<close> is the text column.\<close>

record message_row =
  m_id :: nat
  m_session_id :: string
  sender :: string
  message :: string
  timestamp :: instant
  m_created_at :: instant

record database =
  sessions :: "session list"
  messages :: "message_row list"

section \<open>The HeyGen client\<close>

subsection \<open>What the provider answers\<close>

text \<open>
  A JSON value as far as the client reads it: \<open>null\<close>, or a value whose fields
  \<open>status\<close> and \<open>message\<close> are looked up (\<open>None\<close> when the field is absent).
\<close>

datatype reply = JsonNull | JsonValue "string option" "string option"

record heygen_session =
  hs_session_id :: string
  hs_status :: string
  hs_created_at :: int

text \<open>
  The answer of \<open>streaming.list\<close>: \<open>null\<close>, or a value whose field \<open>sessions\<close> is
  absent or an array.
\<close>

datatype list_reply = ListNull | ListValue "heygen_session list option"

text \<open>
  \<open>response.json()\<close> resolves to the parsed body or rejects; \<open>fetch\<close> rejects or
  resolves to a response with its \<open>ok\<close> flag and its body.
\<close>

datatype 'a body = Parsed 'a | Unparsable

datatype 'a http = FetchFails | Response bool "'a body"

text \<open>
  A message of the provider's transcript. \<open>hm_timestamp\<close> is \<open>None\<close> when
  \<open>new Date(message.timestamp)\<close> is an invalid date, on which \<open>toISOString\<close> throws.
\<close>

record heygen_message =
  role :: string
  content :: string
  hm_timestamp :: "instant option"

text \<open>
  The provider and the environment of the module, as the client sees them.

  The module builds each URL from the identifier \<open>HEYGEN_API_BASE\<close> and calls the
  helper \<open>fetchHeyGenMessages\<close>, and it neither declares nor imports either of them
  (its one import is \<open>supabase\<close>). Both are parameters here. \<open>HEYGEN_API_BASE\<close> is
  \<open>None\<close> when the identifier is unbound, as it is in the module as it stands: the
  template literal then throws a \<open>ReferenceError\<close> inside the \<open>try\<close>, before \<open>fetch\<close> is
  called. \<open>fetchHeyGenMessages\<close> gives the transcript of the session, or \<open>None\<close> when
  the call throws, as it does when the helper is unbound.
\<close>

record provider =
  api_key :: "string option"
  HEYGEN_API_BASE :: "string option"
  streaming_list :: "list_reply http"
  streaming_get :: "string \<Rightarrow> reply http"
  streaming_stop :: "string \<Rightarrow> reply http"
  streaming_chat :: "string \<Rightarrow> string \<Rightarrow> reply http"
  fetchHeyGenMessages :: "string \<Rightarrow> heygen_message list option"

datatype request =
    StreamingList
  | StreamingGet string
  | StreamingStop string
  | StreamingChat string string

text \<open>The promise an \<open>async\<close> function hands to its caller.\<close>

datatype 'a promise = Resolves 'a | Rejects

subsection \<open>The exported functions\<close>

definition checkHeyGenApiKey :: "provider \<Rightarrow> bool" where
  "checkHeyGenApiKey p =
     (case api_key p of
        None \<Rightarrow> False
      | Some k \<Rightarrow> \<not> (k = [] \<or> k = ''your_heygen_api_key_here''))"

definition error_result :: "string \<Rightarrow> reply" where
  "error_result msg = JsonValue (Some ''error'') (Some msg)"

text \<open>
  \<open>errorData.message || dflt\<close>, where \<open>errorData\<close> is the parsed body or \<open>{}\<close> when the
  body does not parse. On a \<open>null\<close> body the property access throws, and the \<open>catch\<close>
  of each caller answers with the same default text.
\<close>

definition error_message :: "reply body \<Rightarrow> string \<Rightarrow> string" where
  "error_message b dflt =
     (case b of
        Parsed (JsonValue _ (Some m)) \<Rightarrow> (if m = [] then dflt else m)
      | _ \<Rightarrow> dflt)"

text \<open>
  Each function returns its promise and the requests it sent to the provider, in order.
\<close>

definition fetchHeyGenSessions :: "provider \<Rightarrow> list_reply promise \<times> request list" where
  "fetchHeyGenSessions p =
     (if \<not> checkHeyGenApiKey p then (Resolves (ListValue (Some [])), [])
      else (case HEYGEN_API_BASE p of
              None \<Rightarrow> (Resolves (ListValue (Some [])), [])
            | Some base \<Rightarrow>
                (case streaming_list p of
                   FetchFails \<Rightarrow> Resolves (ListValue (Some []))
                 | Response ok b \<Rightarrow>
                     (if \<not> ok then Resolves (ListValue (Some []))
                      else (case b of
                              Parsed data \<Rightarrow> Resolves data
                            | Unparsable \<Rightarrow> Resolves (ListValue (Some [])))),
                 [StreamingList])))"

text \<open>
  \<open>return response.json()\<close> hands the promise of the body to the caller without
  awaiting it inside the \<open>try\<close>: when the body does not parse, the rejection is the
  caller's.
\<close>

definition getHeyGenSessionStatus :: "provider \<Rightarrow> string \<Rightarrow> reply promise \<times> request list" where
  "getHeyGenSessionStatus p sessionId =
     (if \<not> checkHeyGenApiKey p
      then (Resolves (error_result ''HeyGen API key not configured''), [])
      else (case HEYGEN_API_BASE p of
              None \<Rightarrow> (Resolves (error_result ''Failed to get session status''), [])
            | Some base \<Rightarrow>
                (case streaming_get p sessionId of
                   FetchFails \<Rightarrow> Resolves (error_result ''Failed to get session status'')
                 | Response ok b \<Rightarrow>
                     (if \<not> ok
                      then Resolves (error_result
                                      (error_message b ''Failed to get session status''))
                      else (case b of Parsed r \<Rightarrow> Resolves r | Unparsable \<Rightarrow> Rejects)),
                 [StreamingGet sessionId])))"

text \<open>The second half of \<open>stopHeyGenSession\<close>: the stop request and its answer.\<close>

definition stop_request :: "provider \<Rightarrow> string \<Rightarrow> reply promise \<times> request list" where
  "stop_request p sessionId =
     (case HEYGEN_API_BASE p of
        None \<Rightarrow> (Resolves (error_result ''Failed to stop session''), [])
      | Some base \<Rightarrow>
          (case streaming_stop p sessionId of
             FetchFails \<Rightarrow> Resolves (error_result ''Failed to stop session'')
           | Response ok b \<Rightarrow>
               (if \<not> ok
                then Resolves (error_result (error_message b ''Failed to stop session''))
                else (case b of Parsed r \<Rightarrow> Resolves r | Unparsable \<Rightarrow> Rejects)),
           [StreamingStop sessionId]))"

definition stopHeyGenSession :: "provider \<Rightarrow> string \<Rightarrow> reply promise \<times> request list" where
  "stopHeyGenSession p sessionId =
     (if \<not> checkHeyGenApiKey p
      then (Resolves (error_result ''HeyGen API key not configured''), [])
      else (case getHeyGenSessionStatus p sessionId of
              (Rejects, sent) \<Rightarrow> (Resolves (error_result ''Failed to stop session''), sent)
            | (Resolves JsonNull, sent) \<Rightarrow>
                (Resolves (error_result ''Failed to stop session''), sent)
            | (Resolves (JsonValue st msg), sent) \<Rightarrow>
                (if st = Some ''completed''
                 then (Resolves (JsonValue (Some ''completed'')
                                   (Some ''Session was already completed'')), sent)
                 else (fst (stop_request p sessionId),
                       sent @ snd (stop_request p sessionId)))))"

definition getAllActiveSessions :: "provider \<Rightarrow> heygen_session list promise \<times> request list" where
  "getAllActiveSessions p =
     (if \<not> checkHeyGenApiKey p then (Resolves [], [])
      else (case fetchHeyGenSessions p of
              (Rejects, sent) \<Rightarrow> (Resolves [], sent)
            | (Resolves ListNull, sent) \<Rightarrow> (Resolves [], sent)
            | (Resolves (ListValue None), sent) \<Rightarrow> (Resolves [], sent)
            | (Resolves (ListValue (Some ss)), sent) \<Rightarrow> (Resolves ss, sent)))"

subsection \<open>Pulling the transcript\<close>

text \<open>\<open>existingMessages?.some(existing => existing.message === message.content)\<close>.\<close>

definition messageExists :: "message_row list option \<Rightarrow> heygen_message \<Rightarrow> bool" where
  "messageExists existingMessages m =
     (case existingMessages of
        None \<Rightarrow> False
      | Some es \<Rightarrow> list_ex (\<lambda>existing. message existing = content m) es)"

definition fresh_id :: "message_row list \<Rightarrow> nat" where
  "fresh_id tbl = Suc (fold max (map m_id tbl) 0)"

text \<open>
  The row an insert stores: the four columns the client sends, the key and
  \<open>created_at\<close> from the column defaults.
\<close>

definition new_row :: "instant \<Rightarrow> string \<Rightarrow> heygen_message \<Rightarrow> instant \<Rightarrow> message_row list \<Rightarrow> message_row" where
  "new_row now sessionId m t tbl =
     \<lparr>m_id = fresh_id tbl, m_session_id = sessionId,
      sender = (if role m = ''user'' then ''user'' else ''avatar''),
      message = content m, timestamp = t, m_created_at = now\<rparr>"

text \<open>
  The loop over the fetched messages. An insert the backend refuses is logged and the
  loop goes on; an invalid timestamp throws out of the loop into the \<open>catch\<close>.
\<close>

fun sync_loop ::
  "backend \<Rightarrow> instant \<Rightarrow> string \<Rightarrow> message_row list option \<Rightarrow> heygen_message list
   \<Rightarrow> message_row list \<Rightarrow> message_row list" where
  "sync_loop be now sessionId existingMessages [] tbl = tbl"
| "sync_loop be now sessionId existingMessages (m # ms) tbl =
     (if messageExists existingMessages m
      then sync_loop be now sessionId existingMessages ms tbl
      else (case hm_timestamp m of
              None \<Rightarrow> tbl
            | Some t \<Rightarrow>
                sync_loop be now sessionId existingMessages ms
                  (if be (InsertMessage sessionId (content m)) then tbl
                   else tbl @ [new_row now sessionId m t tbl])))"

definition syncHeyGenMessages ::
  "backend \<Rightarrow> provider \<Rightarrow> instant \<Rightarrow> string \<Rightarrow> message_row list \<Rightarrow> message_row list" where
  "syncHeyGenMessages be p now sessionId tbl =
     (let existingMessages =
            (if be (SelectMessages sessionId) then None
             else Some (filter (\<lambda>r. m_session_id r = sessionId) tbl))
      in case fetchHeyGenMessages p sessionId of
           None \<Rightarrow> tbl
         | Some ms \<Rightarrow> sync_loop be now sessionId existingMessages ms tbl)"

text \<open>What a stored row holds of a fetched message: the columns \<open>syncHeyGenMessages\<close> sends.\<close>

definition stores :: "string \<Rightarrow> heygen_message \<Rightarrow> message_row \<Rightarrow> bool" where
  "stores sessionId m r =
     (m_session_id r = sessionId \<and> message r = content m
      \<and> sender r = (if role m = ''user'' then ''user'' else ''avatar'')
      \<and> hm_timestamp m = Some (timestamp r))"

definition sendMessageToHeyGen ::
  "backend \<Rightarrow> provider \<Rightarrow> instant \<Rightarrow> string \<Rightarrow> string \<Rightarrow> message_row list
   \<Rightarrow> reply promise \<times> request list \<times> message_row list" where
  "sendMessageToHeyGen be p now sessionId msg tbl =
     (if \<not> checkHeyGenApiKey p
      then (Resolves (error_result ''HeyGen API key not configured''), [], tbl)
      else (case HEYGEN_API_BASE p of
              None \<Rightarrow> (Resolves (error_result ''Failed to send message''), [], tbl)
            | Some base \<Rightarrow>
                (case streaming_chat p sessionId msg of
                   FetchFails \<Rightarrow>
                     (Resolves (error_result ''Failed to send message''),
                      [StreamingChat sessionId msg], tbl)
                 | Response ok b \<Rightarrow>
                     (if \<not> ok
                      then (Resolves (error_result (error_message b ''Failed to send message'')),
                            [StreamingChat sessionId msg], tbl)
                      else (case b of
                              Unparsable \<Rightarrow>
                                (Resolves (error_result ''Failed to send message''),
                                 [StreamingChat sessionId msg], tbl)
                            | Parsed data \<Rightarrow>
                                (Resolves data, [StreamingChat sessionId msg],
                                 syncHeyGenMessages be p now sessionId tbl))))))"

section \<open>Reconciliation with the provider\<close>

text \<open>
  The update that closes a session, sent by the refresh and by the stop handler. The
  clock is read for \<open>end_time\<close> and for \<open>last_sync_at\<close>; one reading stands for both.
\<close>

definition completed_patch :: "instant \<Rightarrow> session \<Rightarrow> session" where
  "completed_patch now r =
     r\<lparr>status := Completed, heygen_status := Some ''completed'',
       end_time := Some now, last_sync_at := Some now\<rparr>"

text \<open>\<open>.in('status', ['active', 'connecting', 'connected']).is('end_time', null)\<close>.\<close>

definition is_local_active :: "session \<Rightarrow> bool" where
  "is_local_active r =
     (status r \<in> set [Active, Connecting, Connected] \<and> end_time r = None)"

text \<open>
  The body of \<open>Promise.all(activeSessions.map(...))\<close>, one selected session after the
  other. The result of the update is not looked at. The callbacks run interleaved in
  the dashboard; as \<open>session_id\<close> is a unique column, they address different rows and
  different transcripts, and their order does not change the result.
\<close>

fun reconcile ::
  "backend \<Rightarrow> provider \<Rightarrow> instant \<Rightarrow> string list \<Rightarrow> session list \<Rightarrow> database \<Rightarrow> database" where
  "reconcile be p now activeHeygenSessionIds [] db = db"
| "reconcile be p now activeHeygenSessionIds (s # ss) db =
     reconcile be p now activeHeygenSessionIds ss
       (if session_id s \<notin> set activeHeygenSessionIds
        then db\<lparr>sessions :=
                  snd (update_sessions be (completed_patch now) (session_id s) (sessions db))\<rparr>
        else db\<lparr>messages := syncHeyGenMessages be p now (session_id s) (messages db)\<rparr>)"

text \<open>
  \<open>isRefreshing\<close> is the value of the React state the called \<open>handleRefresh\<close> closed
  over. The re-read of the list by \<open>fetchSessions\<close> at the end changes no table.
\<close>

definition handleRefresh ::
  "backend \<Rightarrow> provider \<Rightarrow> instant \<Rightarrow> bool \<Rightarrow> database \<Rightarrow> outcome \<times> database \<times> request list" where
  "handleRefresh be p now isRefreshing db =
     (if isRefreshing then (Skipped, db, [])
      else if be SelectActiveSessions then (Failed, db, [])
      else (let activeSessions = filter is_local_active (sessions db)
            in if activeSessions = [] then (Done, db, [])
               else (case getAllActiveSessions p of
                       (Rejects, sent) \<Rightarrow> (Failed, db, sent)
                     | (Resolves heygenSessions, sent) \<Rightarrow>
                         (Done,
                          reconcile be p now (map hs_session_id heygenSessions)
                            activeSessions db,
                          sent))))"

text \<open>
  The provider's active-session list as the refresh reads it: the session ids of what
  \<open>getAllActiveSessions\<close> resolves to.
\<close>

definition activeHeygenSessionIds :: "provider \<Rightarrow> string list" where
  "activeHeygenSessionIds p =
     (case fst (getAllActiveSessions p) of
        Resolves heygenSessions \<Rightarrow> map hs_session_id heygenSessions
      | Rejects \<Rightarrow> [])"

text \<open>A row closed by the update at the clock reading \<open>now\<close>.\<close>

definition closed_at :: "instant \<Rightarrow> session \<Rightarrow> bool" where
  "closed_at now r =
     (status r = Completed \<and> heygen_status r = Some ''completed''
      \<and> end_time r = Some now \<and> last_sync_at r = Some now)"



subsection \<open>The refresh timer\<close>

definition refresh_interval_ms :: nat where
  "refresh_interval_ms = 10000"

text \<open>
  The state of one mounted session list, as far as refreshing goes: the React state
  \<open>isRefreshing\<close> (\<open>useState(false)\<close>) and the number of \<open>handleRefresh\<close> calls that
  have passed the guard and not yet reached their \<open>finally\<close>.
\<close>

record component =
  isRefreshing_state :: bool
  in_progress :: nat

definition mounted :: component where
  "mounted = \<lparr>isRefreshing_state = False, in_progress = 0\<rparr>"

text \<open>
  The start of a \<open>handleRefresh\<close> call, up to its first \<open>await\<close>. The guard reads the
  constant \<open>isRefreshing\<close> of the render that created the called closure, not the
  current state.
\<close>

definition begin_refresh :: "bool \<Rightarrow> component \<Rightarrow> component" where
  "begin_refresh isRefreshing c =
     (if isRefreshing then c
      else c\<lparr>isRefreshing_state := True, in_progress := Suc (in_progress c)\<rparr>)"

text \<open>
  What happens to the component. The effect that sets the timer has the dependency list
  \<open>[]\<close>: it runs after the first render only, so every tick calls the \<open>handleRefresh\<close>
  of the first render, in which \<open>isRefreshing\<close> is the initial state. The refresh
  button calls the \<open>handleRefresh\<close> of the latest render, which closed over the current
  state. A refresh that settles runs its \<open>finally\<close>.
\<close>

datatype event = TimerTick | RefreshClick | RefreshSettles

fun react :: "event \<Rightarrow> component \<Rightarrow> component" where
  "react TimerTick c = begin_refresh (isRefreshing_state mounted) c"
| "react RefreshClick c = begin_refresh (isRefreshing_state c) c"
| "react RefreshSettles c = c\<lparr>isRefreshing_state := False, in_progress := in_progress c - 1\<rparr>"

section \<open>Session statistics\<close>

text \<open>
  One row of \<open>session_stats\<close>. The average response time is a JavaScript number
  computed with \<open>Date.parse\<close>, \<open>toFixed\<close> and \<open>parseFloat\<close>; its type is left open.
\<close>

record 'n session_stats =
  st_session_id :: string
  totalmessages :: nat
  usermessages :: nat
  avatarmessages :: nat
  averageresponsetime :: 'n
  sessionduration :: string

text \<open>
  What the statistics take from outside the dashboard's code: the text in which the
  database returns an interval, the number
  \<open>parseFloat((Date.parse(text) / (1000 * 60)).toFixed(2))\<close> for such a text, and the
  number \<open>0\<close>.
\<close>

record 'n numbers =
  interval_text :: "int \<Rightarrow> string"
  minutes_of_text :: "string \<Rightarrow> 'n"
  zero :: 'n

text \<open>
  \<open>calculateAndStoreStats\<close>: the messages of the session, the session itself with
  \<open>.single()\<close> (an error unless exactly one row matches), the counts, and one insert.
  Every error is thrown into the \<open>catch\<close>, which logs it.
\<close>

definition calculateAndStoreStats ::
  "backend \<Rightarrow> 'n numbers \<Rightarrow> string \<Rightarrow> database \<Rightarrow> 'n session_stats list
   \<Rightarrow> outcome \<times> 'n session_stats list" where
  "calculateAndStoreStats be js sessionId db stats =
     (if be (SelectMessages sessionId) then (Failed, stats)
      else (let msgs = filter (\<lambda>m. m_session_id m = sessionId) (messages db)
            in if be (SelectSession sessionId) then (Failed, stats)
               else (case filter (\<lambda>r. session_id r = sessionId) (sessions db) of
                       [s] \<Rightarrow>
                         (let d = map_option (interval_text js) (duration s);
                              totalMessages = length msgs;
                              userMessages = length (filter (\<lambda>m. sender m = ''user'') msgs);
                              avatarMessages = length (filter (\<lambda>m. sender m = ''avatar'') msgs);
                              averageResponseTime =
                                (case d of
                                   None \<Rightarrow> zero js
                                 | Some t \<Rightarrow> if t = [] then zero js else minutes_of_text js t);
                              sessionDuration =
                                (case d of
                                   None \<Rightarrow> ''00:00:00''
                                 | Some t \<Rightarrow> if t = [] then ''00:00:00'' else t)
                          in if be (InsertStats sessionId) then (Failed, stats)
                             else (Done,
                                   stats @ [\<lparr>st_session_id = sessionId,
                                             totalmessages = totalMessages,
                                             usermessages = userMessages,
                                             avatarmessages = avatarMessages,
                                             averageresponsetime = averageResponseTime,
                                             sessionduration = sessionDuration\<rparr>]))
                     | _ \<Rightarrow> (Failed, stats))))"

section \<open>Example data\<close>

definition accepts_all :: backend where
  "accepts_all = (\<lambda>_. False)"

definition row_a :: session where
  "row_a = \<lparr>id_col = ''1'', session_id = ''a'', start_time = 1000, end_time = None,
            status = Active, heygen_status = None, last_sync_at = None,
            created_at = 1000, updated_at = 1000, is_relevant = Some False,
            is_archived = Some False, deleted_at = None\<rparr>"

definition row_b :: session where
  "row_b = \<lparr>id_col = ''2'', session_id = ''b'', start_time = 2000, end_time = None,
            status = Connected, heygen_status = Some ''connected'', last_sync_at = Some 2500,
            created_at = 2000, updated_at = 2000, is_relevant = Some True,
            is_archived = Some True, deleted_at = None\<rparr>"

definition row_trashed :: session where
  "row_trashed = row_b\<lparr>session_id := ''c'', deleted_at := Some 3000\<rparr>"

text \<open>A row like \<open>row_a\<close> whose \<open>is_archived\<close> is null.\<close>

definition row_unflagged :: session where
  "row_unflagged = row_a\<lparr>session_id := ''n'', is_archived := None\<rparr>"

text \<open>
  Providers for the examples: a configured key, a bound base URL, a given answer to the
  status query and to the stop request, and a given list of active sessions and
  transcript.
\<close>

definition provider_of ::
  "reply http \<Rightarrow> reply http \<Rightarrow> heygen_session list \<Rightarrow> heygen_message list \<Rightarrow> provider" where
  "provider_of g s ss ms =
     \<lparr>api_key = Some ''key'', HEYGEN_API_BASE = Some ''https://api.heygen.com/v1'',
      streaming_list = Response True (Parsed (ListValue (Some ss))),
      streaming_get = (\<lambda>_. g), streaming_stop = (\<lambda>_. s),
      streaming_chat = (\<lambda>_ _. FetchFails), fetchHeyGenMessages = (\<lambda>_. Some ms)\<rparr>"

text \<open>
  The module as it stands in the sources: \<open>HEYGEN_API_BASE\<close> and \<open>fetchHeyGenMessages\<close>
  are bound nowhere, whatever the provider would answer.
\<close>

definition module_as_given :: "provider \<Rightarrow> provider" where
  "module_as_given p = p\<lparr>HEYGEN_API_BASE := None, fetchHeyGenMessages := (\<lambda>_. None)\<rparr>"

text \<open>No API key in the environment.\<close>

definition without_key :: "provider \<Rightarrow> provider" where
  "without_key p = p\<lparr>api_key := None\<rparr>"

definition reports :: "string \<Rightarrow> reply http" where
  "reports st = Response True (Parsed (JsonValue (Some st) None))"

text \<open>A transcript of two messages, the first of which is stored already.\<close>

definition msg_hi :: heygen_message where
  "msg_hi = \<lparr>role = ''user'', content = ''hi'', hm_timestamp = Some 1100\<rparr>"

definition msg_hello :: heygen_message where
  "msg_hello = \<lparr>role = ''assistant'', content = ''hello'', hm_timestamp = Some 1200\<rparr>"

definition msg_bad :: heygen_message where
  "msg_bad = \<lparr>role = ''assistant'', content = ''bad'', hm_timestamp = None\<rparr>"

definition stored_hi :: message_row where
  "stored_hi = \<lparr>m_id = 4, m_session_id = ''a'', sender = ''user'', message = ''hi'',
                 timestamp = 1100, m_created_at = 1150\<rparr>"

definition stored_hello :: message_row where
  "stored_hello = \<lparr>m_id = 5, m_session_id = ''a'', sender = ''avatar'', message = ''hello'',
                    timestamp = 1200, m_created_at = 9000\<rparr>"

text \<open>The provider lists session \<open>a\<close> as active.\<close>

definition listed_a :: heygen_session where
  "listed_a = \<lparr>hs_session_id = ''a'', hs_status = ''connected'', hs_created_at = 1000\<rparr>"

text \<open>Numbers for the examples: integers, with a fixed interval text.\<close>

definition plain_numbers :: "int numbers" where
  "plain_numbers = \<lparr>interval_text = (\<lambda>_. ''00:00:05''), minutes_of_text = (\<lambda>_. 0), zero = 0\<rparr>"

text \<open>A backend that refuses the select of the stored messages and accepts the rest.\<close>

definition messages_select_refused :: backend where
  "messages_select_refused r = (case r of SelectMessages _ \<Rightarrow> True | _ \<Rightarrow> False)"

text \<open>
  A session of five minutes and twenty-three seconds, and the text \<open>hh:mm:ss\<close> in which
  the database returns an interval of less than a day.
\<close>

definition row_done :: session where
  "row_done = row_a\<lparr>session_id := ''d'', status := Completed, end_time := Some 324000\<rparr>"

definition two_digits :: "nat \<Rightarrow> string" where
  "two_digits n = [''0123456789'' ! (n div 10 mod 10), ''0123456789'' ! (n mod 10)]"

definition hms :: "int \<Rightarrow> string" where
  "hms ms =
     (let s = nat (ms div 1000)
      in two_digits (s div 3600) @ '':'' @ two_digits (s div 60 mod 60) @ '':''
         @ two_digits (s mod 60))"

text \<open>
  JavaScript numbers as rationals, with \<open>None\<close> for \<open>NaN\<close>, in an engine whose
  \<open>Date.parse\<close> answers \<open>NaN\<close> for a text that is a time without a date, as ECMAScript
  allows and the current engines do. \<open>NaN / 60000\<close> is \<open>NaN\<close>, \<open>NaN.toFixed(2)\<close> is the
  text \<open>NaN\<close>, and \<open>parseFloat\<close> of it is \<open>NaN\<close>.
\<close>

definition nan_engine :: "rat option numbers" where
  "nan_engine = \<lparr>interval_text = hms, minutes_of_text = (\<lambda>_. None), zero = Some 0\<rparr>"

section \<open>Frame of the flag operations\<close>

lemma update_sessions_length: "length (snd (update_sessions be patch sid tbl)) = length tbl"
  by (simp add: update_sessions_def)

lemma update_sessions_frame:
  assumes "\<And>r. reset (patch r) r = r" and "\<And>r. reset r r = r"
  shows "list_all2 (\<lambda>r r'. (session_id r \<noteq> sid \<longrightarrow> r' = r) \<and> reset r' r = r)
           tbl (snd (update_sessions be patch sid tbl))"
  using assms by (simp add: update_sessions_def list_all2_map2 list_all2_same)

lemma flag_update_frame:
  assumes "\<And>r. reset (patch r) r = r" and "\<And>r. reset r r = r"
  shows "list_all2 (\<lambda>r r'. (session_id r \<noteq> sid \<longrightarrow> r' = r) \<and> reset r' r = r)
           tbl (snd (flag_update be upd sid patch tbl))"
proof (cases "upd = Some sid")
  case True
  then show ?thesis using assms(2) by (simp add: flag_update_def list_all2_same)
next
  case False
  have "snd (flag_update be upd sid patch tbl) = snd (update_sessions be patch sid tbl)"
    using False by (simp add: flag_update_def split: prod.splits bool.splits)
  then show ?thesis using update_sessions_frame [OF assms] by simp
qed

text \<open>
  C5. Each flag handler changes at most its own column, and only in rows of the
  targeted session: a row with another \<open>session_id\<close> is the same before and after, and
  every row after the call, with the handler's own column set back to its old value, is
  the row before the call. This holds whether the handler returned at its guard, failed
  or ran through.
\<close>

theorem flag_handlers_frame:
  "list_all2 (\<lambda>r r'. (session_id r \<noteq> sid \<longrightarrow> r' = r) \<and> r'\<lparr>is_relevant := is_relevant r\<rparr> = r)
     tbl (snd (handleToggleRelevant be upd sid cur tbl))
   \<and> list_all2 (\<lambda>r r'. (session_id r \<noteq> sid \<longrightarrow> r' = r) \<and> r'\<lparr>is_archived := is_archived r\<rparr> = r)
     tbl (snd (handleToggleArchived be upd sid cur tbl))
   \<and> list_all2 (\<lambda>r r'. (session_id r \<noteq> sid \<longrightarrow> r' = r) \<and> r'\<lparr>deleted_at := deleted_at r\<rparr> = r)
     tbl (snd (handleMoveToTrash be now upd sid tbl))
   \<and> list_all2 (\<lambda>r r'. (session_id r \<noteq> sid \<longrightarrow> r' = r) \<and> r'\<lparr>deleted_at := deleted_at r\<rparr> = r)
     tbl (snd (handleRestoreFromTrash be upd sid tbl))"
proof (intro conjI)
  show "list_all2 (\<lambda>r r'. (session_id r \<noteq> sid \<longrightarrow> r' = r) \<and> r'\<lparr>is_relevant := is_relevant r\<rparr> = r)
     tbl (snd (handleToggleRelevant be upd sid cur tbl))"
    unfolding handleToggleRelevant_def
    by (rule flag_update_frame [where reset = "\<lambda>r' r. r'\<lparr>is_relevant := is_relevant r\<rparr>"]) simp_all
  show "list_all2 (\<lambda>r r'. (session_id r \<noteq> sid \<longrightarrow> r' = r) \<and> r'\<lparr>is_archived := is_archived r\<rparr> = r)
     tbl (snd (handleToggleArchived be upd sid cur tbl))"
    unfolding handleToggleArchived_def
    by (rule flag_update_frame [where reset = "\<lambda>r' r. r'\<lparr>is_archived := is_archived r\<rparr>"]) simp_all
  show "list_all2 (\<lambda>r r'. (session_id r \<noteq> sid \<longrightarrow> r' = r) \<and> r'\<lparr>deleted_at := deleted_at r\<rparr> = r)
     tbl (snd (handleMoveToTrash be now upd sid tbl))"
    unfolding handleMoveToTrash_def
    by (rule flag_update_frame [where reset = "\<lambda>r' r. r'\<lparr>deleted_at := deleted_at r\<rparr>"]) simp_all
  show "list_all2 (\<lambda>r r'. (session_id r \<noteq> sid \<longrightarrow> r' = r) \<and> r'\<lparr>deleted_at := deleted_at r\<rparr> = r)
     tbl (snd (handleRestoreFromTrash be upd sid tbl))"
    unfolding handleRestoreFromTrash_def
    by (rule flag_update_frame [where reset = "\<lambda>r' r. r'\<lparr>deleted_at := deleted_at r\<rparr>"]) simp_all
qed

text \<open>An instance of the frame on a table of two rows: the other row is untouched.\<close>

theorem flag_handlers_frame_witness:
  "session_id row_b \<noteq> ''a''
   \<and> snd (handleToggleRelevant accepts_all None ''a'' (Some False) [row_a, row_b])
       = [row_a\<lparr>is_relevant := Some True\<rparr>, row_b]
   \<and> snd (handleToggleArchived accepts_all None ''a'' (Some False) [row_a, row_b])
       = [row_a\<lparr>is_archived := Some True\<rparr>, row_b]
   \<and> snd (handleMoveToTrash accepts_all 5000 None ''a'' [row_a, row_b])
       = [row_a\<lparr>deleted_at := Some 5000\<rparr>, row_b]
   \<and> snd (handleRestoreFromTrash accepts_all None ''c'' [row_trashed, row_b])
       = [row_trashed\<lparr>deleted_at := None\<rparr>, row_b]"
  using flag_handlers_frame [of "''a''" "[row_a, row_b]" accepts_all None "Some False" 5000]
        flag_handlers_frame [of "''c''" "[row_trashed, row_b]" accepts_all None "Some False" 5000]
  by (simp add: handleToggleRelevant_def handleToggleArchived_def handleMoveToTrash_def
        handleRestoreFromTrash_def flag_update_def update_sessions_def accepts_all_def
        js_not_def row_a_def row_b_def row_trashed_def)

section \<open>Trash and restore\<close>

lemma flag_update_Done:
  "flag_update be upd sid patch tbl = (Done, tbl') \<Longrightarrow>
     tbl' = map (\<lambda>r. if session_id r = sid then patch r else r) tbl"
  by (auto simp: flag_update_def update_sessions_def split: if_splits)

text \<open>
  C4, as stated, fails on a session that is in the trash already: moving it to the trash
  again and restoring it leaves \<open>deleted_at\<close> null, not the earlier timestamp. Both
  updates are accepted; the table after them is not the table before.
\<close>

theorem trash_restore_counterexample:
  "fst (handleMoveToTrash accepts_all 5000 None ''c'' [row_trashed]) = Done
   \<and> fst (handleRestoreFromTrash accepts_all None ''c''
            (snd (handleMoveToTrash accepts_all 5000 None ''c'' [row_trashed]))) = Done
   \<and> snd (handleRestoreFromTrash accepts_all None ''c''
            (snd (handleMoveToTrash accepts_all 5000 None ''c'' [row_trashed]))) \<noteq> [row_trashed]"
  by (simp add: handleMoveToTrash_def handleRestoreFromTrash_def flag_update_def
        update_sessions_def accepts_all_def row_b_def row_trashed_def)

text \<open>
  C4, amended. When the trash handler and then the restore handler run through on a
  session, the first sets \<open>deleted_at\<close> of its rows to the clock reading and the
  second sets it to null; if \<open>deleted_at\<close> of the session was null before, the table
  after the two is the table before them, row by row and field by field.
\<close>

theorem trash_restore_round_trip:
  assumes trash: "handleMoveToTrash be now upd sid tbl = (Done, tbl1)"
    and restore: "handleRestoreFromTrash be' upd' sid tbl1 = (Done, tbl2)"
  shows "tbl1 = map (\<lambda>r. if session_id r = sid then r\<lparr>deleted_at := Some now\<rparr> else r) tbl
       \<and> tbl2 = map (\<lambda>r. if session_id r = sid then r\<lparr>deleted_at := None\<rparr> else r) tbl
       \<and> ((\<forall>r \<in> set tbl. session_id r = sid \<longrightarrow> deleted_at r = None) \<longrightarrow> tbl2 = tbl)"
proof -
  have t1: "tbl1 = map (\<lambda>r. if session_id r = sid then r\<lparr>deleted_at := Some now\<rparr> else r) tbl"
    using trash unfolding handleMoveToTrash_def by (rule flag_update_Done)
  have "tbl2 = map (\<lambda>r. if session_id r = sid then r\<lparr>deleted_at := None\<rparr> else r) tbl1"
    using restore unfolding handleRestoreFromTrash_def by (rule flag_update_Done)
  then have t2: "tbl2 = map (\<lambda>r. if session_id r = sid then r\<lparr>deleted_at := None\<rparr> else r) tbl"
    unfolding t1 by (simp add: comp_def cong: if_cong)
  have "tbl2 = tbl" if "\<forall>r \<in> set tbl. session_id r = sid \<longrightarrow> deleted_at r = None"
    unfolding t2 using that by (induction tbl) auto
  with t1 t2 show ?thesis by blast
qed

theorem trash_restore_round_trip_witness:
  "handleMoveToTrash accepts_all 5000 None ''a'' [row_a, row_b]
     = (Done, [row_a\<lparr>deleted_at := Some 5000\<rparr>, row_b])
   \<and> handleRestoreFromTrash accepts_all None ''a'' [row_a\<lparr>deleted_at := Some 5000\<rparr>, row_b]
     = (Done, [row_a, row_b])"
proof -
  have t: "handleMoveToTrash accepts_all 5000 None ''a'' [row_a, row_b]
     = (Done, [row_a\<lparr>deleted_at := Some 5000\<rparr>, row_b])"
    by (simp add: handleMoveToTrash_def flag_update_def update_sessions_def accepts_all_def
          row_a_def row_b_def)
  have r: "handleRestoreFromTrash accepts_all None ''a'' [row_a\<lparr>deleted_at := Some 5000\<rparr>, row_b]
     = (Done, [row_a\<lparr>deleted_at := None\<rparr>, row_b])"
    by (simp add: handleRestoreFromTrash_def flag_update_def update_sessions_def accepts_all_def
          row_a_def row_b_def)
  have pre: "\<forall>r \<in> set [row_a, row_b]. session_id r = ''a'' \<longrightarrow> deleted_at r = None"
    by (simp add: row_a_def row_b_def)
  from trash_restore_round_trip [OF t r] pre
  have "[row_a\<lparr>deleted_at := None\<rparr>, row_b] = [row_a, row_b]" by blast
  with t r show ?thesis by simp
qed

section \<open>View modes\<close>

lemma view_matches_at_most_one:
  "view_matches vm s \<Longrightarrow> view_matches vm' s \<Longrightarrow> vm = vm'"
  by (cases vm; cases vm'; simp)

lemma view_matches_some:
  "(\<exists>vm. view_matches vm s) \<longleftrightarrow> is_archived s \<noteq> None \<or> deleted_at s \<noteq> None"
proof
  assume "\<exists>vm. view_matches vm s"
  then obtain vm where "view_matches vm s" ..
  then show "is_archived s \<noteq> None \<or> deleted_at s \<noteq> None"
    by (cases vm) auto
next
  assume flag: "is_archived s \<noteq> None \<or> deleted_at s \<noteq> None"
  show "\<exists>vm. view_matches vm s"
  proof (cases "deleted_at s")
    case (Some t)
    then have "view_matches TRASH s" by simp
    then show ?thesis ..
  next
    case None
    with flag obtain b where b: "is_archived s = Some b" by auto
    show ?thesis
    proof (cases b)
      case True
      with None b have "view_matches ARCHIVED s" by simp
      then show ?thesis ..
    next
      case False
      with None b have "view_matches ACTIVE s" by simp
      then show ?thesis ..
    qed
  qed
qed

lemma view_matches_exactly_one:
  "is_archived s \<noteq> None \<or> deleted_at s \<noteq> None \<Longrightarrow> \<exists>!vm. view_matches vm s"
  using view_matches_some [of s] view_matches_at_most_one [of _ s] by blast

lemma fetchSessions_rows:
  assumes "fetchSessions be flt startDate endDate viewMode tbl = Some rows"
  shows "s \<in> set rows \<longleftrightarrow> s \<in> set tbl \<and> query_matches flt startDate endDate viewMode s"
  using assms by (auto simp: fetchSessions_def split: if_splits)

text \<open>
  C9, as stated, fails on two kinds of rows. A row whose \<open>is_archived\<close> is null and which
  is not in the trash satisfies none of the three view-mode predicates, so it is in no
  view. And a row outside the date range matches the query of no view mode, whatever its
  flags.
\<close>

theorem view_modes_counterexample:
  "\<not> (\<exists>vm. view_matches vm row_unflagged)
   \<and> \<not> (\<exists>vm. query_matches ''all'' 0 5000 vm row_unflagged)
   \<and> \<not> (\<exists>vm. query_matches ''all'' 5000 6000 vm row_a)"
proof -
  have "is_archived row_unflagged = None" "deleted_at row_unflagged = None"
    by (simp_all add: row_unflagged_def row_a_def)
  then have none: "\<not> (\<exists>vm. view_matches vm row_unflagged)"
    by (simp add: view_matches_some)
  have "\<not> in_filter_and_range ''all'' 5000 6000 row_a"
    by (simp add: in_filter_and_range_def row_a_def)
  with none show ?thesis by (simp add: query_matches_def)
qed

text \<open>
  C9, amended. Of a session row whose \<open>is_archived\<close> is not null, or which is in the
  trash, exactly one of the three view-mode predicates holds; a row with a null
  \<open>is_archived\<close> outside the trash satisfies none. So with the status filter and the date
  range fixed, such a row matches the query of exactly one view mode when it is inside
  filter and range, and a row outside them matches the query of none.
\<close>

theorem view_modes_partition:
  "(is_archived s \<noteq> None \<or> deleted_at s \<noteq> None \<longrightarrow> (\<exists>!vm. view_matches vm s))
   \<and> (is_archived s = None \<and> deleted_at s = None \<longrightarrow> \<not> (\<exists>vm. view_matches vm s))
   \<and> ((is_archived s \<noteq> None \<or> deleted_at s \<noteq> None)
        \<and> in_filter_and_range flt startDate endDate s
        \<longrightarrow> (\<exists>!vm. query_matches flt startDate endDate vm s))
   \<and> (\<not> in_filter_and_range flt startDate endDate s
        \<longrightarrow> \<not> (\<exists>vm. query_matches flt startDate endDate vm s))"
proof (intro conjI impI)
  show "\<exists>!vm. view_matches vm s" if "is_archived s \<noteq> None \<or> deleted_at s \<noteq> None"
    using that by (rule view_matches_exactly_one)
  show "\<not> (\<exists>vm. view_matches vm s)" if "is_archived s = None \<and> deleted_at s = None"
    using that by (simp add: view_matches_some)
  show "\<exists>!vm. query_matches flt startDate endDate vm s"
    if "(is_archived s \<noteq> None \<or> deleted_at s \<noteq> None)
        \<and> in_filter_and_range flt startDate endDate s"
    using that view_matches_exactly_one [of s] by (simp add: query_matches_def)
  show "\<not> (\<exists>vm. query_matches flt startDate endDate vm s)"
    if "\<not> in_filter_and_range flt startDate endDate s"
    using that by (simp add: query_matches_def)
qed

theorem view_modes_partition_witness:
  "is_archived row_a = Some False
   \<and> in_filter_and_range ''all'' 0 5000 row_a
   \<and> query_matches ''all'' 0 5000 ACTIVE row_a
   \<and> \<not> query_matches ''all'' 0 5000 ARCHIVED row_a
   \<and> \<not> query_matches ''all'' 0 5000 TRASH row_a
   \<and> (\<exists>!vm. query_matches ''all'' 0 5000 vm row_a)
   \<and> (\<exists>!vm. view_matches vm row_trashed)"
  using view_modes_partition [of row_a "''all''" 0 5000]
        view_modes_partition [of row_trashed "''all''" 0 5000]
  by (simp add: query_matches_def in_filter_and_range_def row_a_def row_b_def row_trashed_def)

section \<open>Stopping a session\<close>




lemma completed_patch_fields:
  "status (completed_patch now r) = Completed"
  "heygen_status (completed_patch now r) = Some ''completed''"
  "end_time (completed_patch now r) = Some now"
  "last_sync_at (completed_patch now r) = Some now"
  "session_id (completed_patch now r) = session_id r"
  "is_archived (completed_patch now r) = is_archived r"
  "deleted_at (completed_patch now r) = deleted_at r"
  "is_relevant (completed_patch now r) = is_relevant r"
  by (simp_all add: completed_patch_def)






text \<open>
  With a key and a bound base URL the status query is the first request, and the stop
  request follows it when the provider reports a session that is not completed.
\<close>

lemma stop_with_bound_base:
  "snd (stopHeyGenSession (provider_of (reports ''completed'') FetchFails [] []) ''a'')
     = [StreamingGet ''a'']"
  "snd (stopHeyGenSession (provider_of (reports ''active'') (reports ''stopped'') [] []) ''a'')
     = [StreamingGet ''a'', StreamingStop ''a'']"
  by (simp_all add: stopHeyGenSession_def getHeyGenSessionStatus_def stop_request_def
        checkHeyGenApiKey_def provider_of_def reports_def)

section \<open>Totality of the client functions\<close>


lemma getAllActiveSessions_resolves: "\<exists>v. fst (getAllActiveSessions p) = Resolves v"
  by (cases "fetchHeyGenSessions p")
     (auto simp: getAllActiveSessions_def split: promise.splits list_reply.splits option.splits)


text \<open>
  The status query and the stop request end their \<open>try\<close> with \<open>return response.json()\<close>,
  which is not awaited there. Once \<open>HEYGEN_API_BASE\<close> is bound, each of them rejects on
  an answer \<open>200 OK\<close> whose body is not JSON, and in no other case.
\<close>

lemma getHeyGenSessionStatus_rejects_iff:
  "fst (getHeyGenSessionStatus p sid) = Rejects \<longleftrightarrow>
     checkHeyGenApiKey p \<and> HEYGEN_API_BASE p \<noteq> None
     \<and> streaming_get p sid = Response True Unparsable"
  by (auto simp: getHeyGenSessionStatus_def split: option.splits http.splits body.splits)

lemma stop_request_rejects_iff:
  "fst (stop_request p sid) = Rejects \<longleftrightarrow>
     HEYGEN_API_BASE p \<noteq> None \<and> streaming_stop p sid = Response True Unparsable"
  by (auto simp: stop_request_def split: option.splits http.splits body.splits)

lemma stopHeyGenSession_rejects_iff:
  "fst (stopHeyGenSession p sid) = Rejects \<longleftrightarrow>
     checkHeyGenApiKey p \<and> HEYGEN_API_BASE p \<noteq> None
     \<and> (\<exists>st msg. fst (getHeyGenSessionStatus p sid) = Resolves (JsonValue st msg)
                  \<and> st \<noteq> Some ''completed'')
     \<and> streaming_stop p sid = Response True Unparsable"
  by (cases "getHeyGenSessionStatus p sid")
     (auto simp: stopHeyGenSession_def stop_request_rejects_iff
        split: promise.splits reply.splits)

lemma no_key_fallbacks:
  assumes "\<not> checkHeyGenApiKey p"
  shows "fetchHeyGenSessions p = (Resolves (ListValue (Some [])), [])"
    and "getHeyGenSessionStatus p sid = (Resolves (error_result ''HeyGen API key not configured''), [])"
    and "stopHeyGenSession p sid = (Resolves (error_result ''HeyGen API key not configured''), [])"
    and "sendMessageToHeyGen be p now sid msg tbl
           = (Resolves (error_result ''HeyGen API key not configured''), [], tbl)"
    and "getAllActiveSessions p = (Resolves [], [])"
  using assms
  by (simp_all add: fetchHeyGenSessions_def getHeyGenSessionStatus_def stopHeyGenSession_def
        sendMessageToHeyGen_def getAllActiveSessions_def)

lemma checkHeyGenApiKey_as_given [simp]:
  "checkHeyGenApiKey (module_as_given p) = checkHeyGenApiKey p"
  by (simp add: checkHeyGenApiKey_def module_as_given_def)

lemma HEYGEN_API_BASE_as_given [simp]: "HEYGEN_API_BASE (module_as_given p) = None"
  by (simp add: module_as_given_def)

lemma fetchHeyGenMessages_as_given [simp]: "fetchHeyGenMessages (module_as_given p) sid = None"
  by (simp add: module_as_given_def)


section \<open>Overlapping refreshes\<close>

lemma handleRefresh_Skipped: "fst (handleRefresh be p now isRefreshing db) = Skipped \<longleftrightarrow> isRefreshing"
  by (cases "getAllActiveSessions p")
     (auto simp: handleRefresh_def Let_def split: promise.splits)

text \<open>
  C8 holds for the interval, which is 10000 ms, and for a click on the refresh button
  while a refresh is running. It does not hold for the timer: the guard of the
  \<open>handleRefresh\<close> the timer calls reads the initial state, so a tick during a running
  refresh passes the guard, and after two ticks two refreshes are in progress.
\<close>

theorem timer_refreshes_overlap:
  "refresh_interval_ms = 10000
   \<and> isRefreshing_state (react TimerTick mounted) = True
   \<and> in_progress (react TimerTick mounted) = 1
   \<and> in_progress (react TimerTick (react TimerTick mounted)) = 2
   \<and> in_progress (react RefreshClick (react TimerTick mounted)) = 1
   \<and> fst (handleRefresh be p now (isRefreshing_state mounted) db) \<noteq> Skipped"
  by (simp add: refresh_interval_ms_def begin_refresh_def mounted_def handleRefresh_Skipped)

section \<open>Pulling new messages\<close>

lemma stores_new_row: "hm_timestamp m = Some t \<Longrightarrow> stores sid m (new_row now sid m t tbl)"
  by (simp add: stores_def new_row_def)

lemma sync_loop_appends: "\<exists>rows. sync_loop be now sid ex ms tbl = tbl @ rows
    \<and> (\<forall>r \<in> set rows. m_session_id r = sid)"
proof (induction ms arbitrary: tbl)
  case Nil
  then show ?case by simp
next
  case (Cons m ms)
  show ?case
  proof (cases "messageExists ex m")
    case True
    then show ?thesis using Cons.IH [of tbl] by simp
  next
    case False
    show ?thesis
    proof (cases "hm_timestamp m")
      case None
      with False show ?thesis by simp
    next
      case (Some t)
      show ?thesis
      proof (cases "be (InsertMessage sid (content m))")
        case True
        with False Some show ?thesis using Cons.IH [of tbl] by simp
      next
        case refused: False
        obtain rows where
          "sync_loop be now sid ex ms (tbl @ [new_row now sid m t tbl])
             = (tbl @ [new_row now sid m t tbl]) @ rows"
          "\<forall>r \<in> set rows. m_session_id r = sid"
          using Cons.IH [of "tbl @ [new_row now sid m t tbl]"] by blast
        with False Some refused show ?thesis
          by (intro exI [of _ "new_row now sid m t tbl # rows"]) (simp add: new_row_def)
      qed
    qed
  qed
qed

lemma sync_loop_inserts:
  assumes "\<forall>m \<in> set ms. hm_timestamp m \<noteq> None"
    and "\<forall>m \<in> set ms. \<not> be (InsertMessage sid (content m))"
  shows "\<exists>rows. sync_loop be now sid ex ms tbl = tbl @ rows
           \<and> list_all2 (stores sid) (filter (\<lambda>m. \<not> messageExists ex m) ms) rows"
  using assms
proof (induction ms arbitrary: tbl)
  case Nil
  then show ?case by simp
next
  case (Cons m ms)
  show ?case
  proof (cases "messageExists ex m")
    case True
    then show ?thesis using Cons.IH [of tbl] Cons.prems by simp
  next
    case False
    obtain t where t: "hm_timestamp m = Some t" using Cons.prems(1) by auto
    have acc: "\<not> be (InsertMessage sid (content m))" using Cons.prems(2) by simp
    obtain rows where
      "sync_loop be now sid ex ms (tbl @ [new_row now sid m t tbl])
         = (tbl @ [new_row now sid m t tbl]) @ rows"
      "list_all2 (stores sid) (filter (\<lambda>m. \<not> messageExists ex m) ms) rows"
      using Cons.IH [of "tbl @ [new_row now sid m t tbl]"] Cons.prems by auto
    with False t acc show ?thesis
      by (intro exI [of _ "new_row now sid m t tbl # rows"]) (simp add: stores_new_row)
  qed
qed

lemma sync_loop_nothing_new:
  "\<forall>m \<in> set ms. messageExists ex m \<Longrightarrow> sync_loop be now sid ex ms tbl = tbl"
  by (induction ms) simp_all

lemma messageExists_iff:
  "messageExists (Some es) m \<longleftrightarrow> content m \<in> message ` set es"
proof
  assume "messageExists (Some es) m"
  then obtain e where "e \<in> set es" "message e = content m"
    by (auto simp: messageExists_def list_ex_iff)
  then show "content m \<in> message ` set es" by (metis imageI)
next
  assume "content m \<in> message ` set es"
  then obtain e where "e \<in> set es" "content m = message e" by blast
  then show "messageExists (Some es) m"
    by (auto simp: messageExists_def list_ex_iff)
qed

lemma list_all2_memD: "list_all2 P xs ys \<Longrightarrow> x \<in> set xs \<Longrightarrow> \<exists>y \<in> set ys. P x y"
  by (induction rule: list_all2_induct) auto

text \<open>
  Where the sync does what its comment says (only messages that are not stored yet are
  added): when the select of the stored messages and the fetch of the transcript
  succeed, every fetched timestamp is a date and the backend accepts the inserts,
  \<open>syncHeyGenMessages\<close> appends one row for each fetched message whose content is not
  the content of a row stored for the session, in the order of the transcript, with
  sender \<open>user\<close> for the role \<open>user\<close> and \<open>avatar\<close> otherwise, and nothing else; a second
  sync against the same transcript then leaves the table as the first one left it.
\<close>

lemma sync_inserts_new_messages:
  assumes sel: "\<not> be (SelectMessages sid)"
    and fetch: "fetchHeyGenMessages p sid = Some ms"
    and valid: "\<forall>m \<in> set ms. hm_timestamp m \<noteq> None"
    and acc: "\<forall>m \<in> set ms. \<not> be (InsertMessage sid (content m))"
  shows "(\<exists>rows. syncHeyGenMessages be p now sid tbl = tbl @ rows
            \<and> list_all2 (stores sid)
                 (filter (\<lambda>m. content m \<notin> message ` {r \<in> set tbl. m_session_id r = sid}) ms)
                 rows)
       \<and> syncHeyGenMessages be p now' sid (syncHeyGenMessages be p now sid tbl)
           = syncHeyGenMessages be p now sid tbl"
proof -
  let ?es = "filter (\<lambda>r. m_session_id r = sid) tbl"
  have run: "syncHeyGenMessages be p t sid tb
               = sync_loop be t sid (Some (filter (\<lambda>r. m_session_id r = sid) tb)) ms tb" for t tb
    using sel fetch by (simp add: syncHeyGenMessages_def)
  have new: "(\<lambda>m. \<not> messageExists (Some ?es) m)
               = (\<lambda>m. content m \<notin> message ` {r \<in> set tbl. m_session_id r = sid})"
    by (simp add: messageExists_iff)
  obtain rows where rows: "sync_loop be now sid (Some ?es) ms tbl = tbl @ rows"
    and stored: "list_all2 (stores sid) (filter (\<lambda>m. \<not> messageExists (Some ?es) m) ms) rows"
    using sync_loop_inserts [OF valid acc] by blast
  have first: "syncHeyGenMessages be p now sid tbl = tbl @ rows"
    using run rows by simp
  have all_there:
    "messageExists (Some (filter (\<lambda>r. m_session_id r = sid) (tbl @ rows))) m"
    if m: "m \<in> set ms" for m
  proof (cases "messageExists (Some ?es) m")
    case True
    then show ?thesis by (auto simp: messageExists_iff)
  next
    case False
    with m have "m \<in> set (filter (\<lambda>m. \<not> messageExists (Some ?es) m) ms)" by simp
    then obtain r where "r \<in> set rows" "stores sid m r"
      using list_all2_memD [OF stored] by blast
    then have "r \<in> set (filter (\<lambda>r. m_session_id r = sid) (tbl @ rows))" "content m = message r"
      by (simp_all add: stores_def)
    then show ?thesis unfolding messageExists_iff by (rule image_eqI [rotated])
  qed
  have second: "syncHeyGenMessages be p now' sid (tbl @ rows) = tbl @ rows"
    unfolding run using all_there by (intro sync_loop_nothing_new) blast
  from first second stored new show ?thesis by simp
qed

lemma sync_inserts_new_messages_example:
  "\<not> accepts_all (SelectMessages ''a'')
   \<and> fetchHeyGenMessages (provider_of FetchFails FetchFails [] [msg_hi, msg_hello]) ''a''
       = Some [msg_hi, msg_hello]
   \<and> syncHeyGenMessages accepts_all (provider_of FetchFails FetchFails [] [msg_hi, msg_hello])
         9000 ''a'' [stored_hi] = [stored_hi, stored_hello]
   \<and> syncHeyGenMessages accepts_all (provider_of FetchFails FetchFails [] [msg_hi, msg_hello])
         9500 ''a'' [stored_hi, stored_hello] = [stored_hi, stored_hello]"
proof -
  let ?p = "provider_of FetchFails FetchFails [] [msg_hi, msg_hello]"
  have sel: "\<not> accepts_all (SelectMessages ''a'')" by (simp add: accepts_all_def)
  have fetch: "fetchHeyGenMessages ?p ''a'' = Some [msg_hi, msg_hello]"
    by (simp add: provider_of_def)
  have valid: "\<forall>m \<in> set [msg_hi, msg_hello]. hm_timestamp m \<noteq> None"
    by (simp add: msg_hi_def msg_hello_def)
  have acc: "\<forall>m \<in> set [msg_hi, msg_hello]. \<not> accepts_all (InsertMessage ''a'' (content m))"
    by (simp add: accepts_all_def)
  have first: "syncHeyGenMessages accepts_all ?p 9000 ''a'' [stored_hi] = [stored_hi, stored_hello]"
    by (simp add: syncHeyGenMessages_def provider_of_def accepts_all_def messageExists_def
          new_row_def fresh_id_def msg_hi_def msg_hello_def stored_hi_def stored_hello_def)
  from sync_inserts_new_messages [OF sel fetch valid acc, of 9000 "[stored_hi]" 9500]
  have "syncHeyGenMessages accepts_all ?p 9500 ''a''
          (syncHeyGenMessages accepts_all ?p 9000 ''a'' [stored_hi])
        = syncHeyGenMessages accepts_all ?p 9000 ''a'' [stored_hi]"
    by blast
  with sel fetch first show ?thesis by simp
qed

text \<open>
  C2 does not hold of \<open>syncHeyGenMessages\<close> on three paths. The error of the select is
  dropped: when the select fails, every fetched message counts as new, a stored message
  is inserted again, and a second sync inserts the transcript once more. An invalid
  timestamp throws out of the loop: the messages after it are never inserted, however
  often the sync runs. And in the module as it stands the helper that fetches the
  transcript is unbound, so nothing is inserted at all.
\<close>

theorem sync_duplicates_and_drops:
  "map message (syncHeyGenMessages messages_select_refused
                  (provider_of FetchFails FetchFails [] [msg_hi, msg_hello]) 9000 ''a''
                  [stored_hi])
     = [''hi'', ''hi'', ''hello'']
   \<and> map message (syncHeyGenMessages messages_select_refused
                  (provider_of FetchFails FetchFails [] [msg_hi, msg_hello]) 9500 ''a''
                  (syncHeyGenMessages messages_select_refused
                     (provider_of FetchFails FetchFails [] [msg_hi, msg_hello]) 9000 ''a''
                     [stored_hi]))
     = [''hi'', ''hi'', ''hello'', ''hi'', ''hello'']
   \<and> map message (syncHeyGenMessages accepts_all
                  (provider_of FetchFails FetchFails [] [msg_hi, msg_bad, msg_hello]) 9000 ''a'' [])
     = [''hi'']
   \<and> map message (syncHeyGenMessages accepts_all
                  (provider_of FetchFails FetchFails [] [msg_hi, msg_bad, msg_hello]) 9500 ''a''
                  (syncHeyGenMessages accepts_all
                     (provider_of FetchFails FetchFails [] [msg_hi, msg_bad, msg_hello]) 9000 ''a''
                     []))
     = [''hi'']
   \<and> syncHeyGenMessages accepts_all
        (module_as_given (provider_of FetchFails FetchFails [] [msg_hi, msg_hello])) 9000 ''a''
        [stored_hi]
     = [stored_hi]"
  by (simp add: syncHeyGenMessages_def provider_of_def accepts_all_def
        messages_select_refused_def messageExists_def new_row_def fresh_id_def
        msg_hi_def msg_hello_def msg_bad_def stored_hi_def)

section \<open>The refresh reconciliation\<close>

lemma handleRefresh_run:
  assumes "\<not> isRefreshing" and "\<not> be SelectActiveSessions"
  shows "fst (handleRefresh be p now isRefreshing db) = Done"
    and "fst (snd (handleRefresh be p now isRefreshing db))
           = reconcile be p now (activeHeygenSessionIds p)
               (filter is_local_active (sessions db)) db"
proof -
  obtain hs sent where g: "getAllActiveSessions p = (Resolves hs, sent)"
    using getAllActiveSessions_resolves [of p] by (cases "getAllActiveSessions p") auto
  show "fst (handleRefresh be p now isRefreshing db) = Done"
    using assms g by (simp add: handleRefresh_def Let_def)
  show "fst (snd (handleRefresh be p now isRefreshing db))
           = reconcile be p now (activeHeygenSessionIds p)
               (filter is_local_active (sessions db)) db"
    using assms g by (simp add: handleRefresh_def Let_def activeHeygenSessionIds_def)
qed

text \<open>
  Without a configured key, with \<open>HEYGEN_API_BASE\<close> unbound, and when the list request
  fails or is answered with an error status, the list the refresh works with is empty,
  whatever sessions the provider has.
\<close>

lemma activeHeygenSessionIds_fallback:
  assumes "\<not> checkHeyGenApiKey p \<or> HEYGEN_API_BASE p = None
           \<or> streaming_list p = FetchFails
           \<or> (\<exists>b. streaming_list p = Response False b)"
  shows "activeHeygenSessionIds p = []"
  using assms
  by (auto simp: activeHeygenSessionIds_def getAllActiveSessions_def fetchHeyGenSessions_def
        split: option.splits)

lemma update_sessions_ids:
  "map session_id (snd (update_sessions be (completed_patch now) x tbl)) = map session_id tbl"
proof -
  have "map session_id (map (\<lambda>r. if session_id r = x then completed_patch now r else r) tbl)
          = map session_id tbl"
    by (induction tbl) (simp_all add: completed_patch_fields)
  then show ?thesis by (simp add: update_sessions_def)
qed

lemma update_sessions_other:
  "x \<noteq> y \<Longrightarrow>
     filter (\<lambda>r. session_id r = x) (snd (update_sessions be (completed_patch now) y tbl))
       = filter (\<lambda>r. session_id r = x) tbl"
proof (cases "be (UpdateSession y)")
  case True
  then show ?thesis by (simp add: update_sessions_def)
next
  case False
  assume "x \<noteq> y"
  then have "filter (\<lambda>r. session_id r = x)
          (map (\<lambda>r. if session_id r = y then completed_patch now r else r) tbl)
        = filter (\<lambda>r. session_id r = x) tbl"
    by (induction tbl) (simp_all add: completed_patch_fields)
  with False show ?thesis by (simp add: update_sessions_def)
qed

lemma closed_at_patch: "closed_at now (completed_patch now r)"
  by (simp add: closed_at_def completed_patch_fields)

lemma update_sessions_keeps_closed:
  assumes "\<forall>r \<in> set tbl. session_id r = x \<longrightarrow> closed_at now r"
  shows "\<forall>r \<in> set (snd (update_sessions be (completed_patch now) y tbl)).
           session_id r = x \<longrightarrow> closed_at now r"
proof (cases "be (UpdateSession y)")
  case True
  then show ?thesis using assms by (simp add: update_sessions_def)
next
  case False
  have "\<forall>r \<in> set (map (\<lambda>r. if session_id r = y then completed_patch now r else r) tbl).
           session_id r = x \<longrightarrow> closed_at now r"
    using assms by (induction tbl) (simp_all add: completed_patch_fields closed_at_patch)
  with False show ?thesis by (simp add: update_sessions_def)
qed

lemma update_sessions_closes:
  assumes "\<not> be (UpdateSession x)"
  shows "\<forall>r \<in> set (snd (update_sessions be (completed_patch now) x tbl)).
           session_id r = x \<longrightarrow> closed_at now r"
proof -
  have "\<forall>r \<in> set (map (\<lambda>r. if session_id r = x then completed_patch now r else r) tbl).
           session_id r = x \<longrightarrow> closed_at now r"
    by (induction tbl) (simp_all add: completed_patch_fields closed_at_patch)
  with assms show ?thesis by (simp add: update_sessions_def)
qed

lemma reconcile_ids:
  "map session_id (sessions (reconcile be p now ids ss db)) = map session_id (sessions db)"
  by (induction ss arbitrary: db) (simp_all add: update_sessions_ids)

lemma reconcile_listed_rows:
  "x \<in> set ids \<Longrightarrow>
     filter (\<lambda>r. session_id r = x) (sessions (reconcile be p now ids ss db))
       = filter (\<lambda>r. session_id r = x) (sessions db)"
proof (induction ss arbitrary: db)
  case Nil
  then show ?case by simp
next
  case (Cons s ss)
  show ?case
  proof (cases "session_id s \<in> set ids")
    case True
    then show ?thesis using Cons.IH [OF Cons.prems] by simp
  next
    case False
    with Cons.prems have "x \<noteq> session_id s" by auto
    then show ?thesis using False Cons.IH [OF Cons.prems]
      by (simp add: update_sessions_other)
  qed
qed

lemma reconcile_keeps_closed:
  "\<forall>r \<in> set (sessions db). session_id r = x \<longrightarrow> closed_at now r \<Longrightarrow>
   \<forall>r \<in> set (sessions (reconcile be p now ids ss db)). session_id r = x \<longrightarrow> closed_at now r"
proof (induction ss arbitrary: db)
  case Nil
  then show ?case by simp
next
  case (Cons s ss)
  show ?case
  proof (cases "session_id s \<in> set ids")
    case True
    then show ?thesis using Cons.IH [of "db\<lparr>messages := syncHeyGenMessages be p now (session_id s) (messages db)\<rparr>"] Cons.prems
      by simp
  next
    case False
    let ?db = "db\<lparr>sessions := snd (update_sessions be (completed_patch now) (session_id s) (sessions db))\<rparr>"
    have "\<forall>r \<in> set (sessions ?db). session_id r = x \<longrightarrow> closed_at now r"
      using update_sessions_keeps_closed [of "sessions db" x now be "session_id s"] Cons.prems by simp
    from Cons.IH [OF this] False show ?thesis by simp
  qed
qed

lemma reconcile_closes:
  assumes "s \<in> set ss" and "session_id s \<notin> set ids"
    and "\<not> be (UpdateSession (session_id s))"
  shows "\<forall>r \<in> set (sessions (reconcile be p now ids ss db)).
           session_id r = session_id s \<longrightarrow> closed_at now r"
  using assms(1)
proof (induction ss arbitrary: db)
  case Nil
  then show ?case by simp
next
  case (Cons a ss)
  show ?case
  proof (cases "a = s")
    case True
    let ?db = "db\<lparr>sessions := snd (update_sessions be (completed_patch now) (session_id s) (sessions db))\<rparr>"
    have "\<forall>r \<in> set (sessions ?db). session_id r = session_id s \<longrightarrow> closed_at now r"
      using update_sessions_closes [of be "session_id s" now "sessions db"] assms(3) by simp
    from reconcile_keeps_closed [OF this] True assms(2) show ?thesis by simp
  next
    case False
    with Cons.prems have "s \<in> set ss" by simp
    from Cons.IH [OF this] show ?thesis by simp
  qed
qed


lemma sync_appends: "\<exists>rows. syncHeyGenMessages be p now sid tbl = tbl @ rows"
proof (cases "fetchHeyGenMessages p sid")
  case None
  then show ?thesis by (simp add: syncHeyGenMessages_def)
next
  case (Some ms)
  then show ?thesis
    using sync_loop_appends [of be now sid _ ms tbl]
    by (auto simp: syncHeyGenMessages_def Let_def)
qed

lemma sync_stores_transcript:
  assumes sel: "\<not> be (SelectMessages sid)"
    and fetch: "fetchHeyGenMessages p sid = Some ms"
    and valid: "\<forall>m \<in> set ms. hm_timestamp m \<noteq> None"
    and acc: "\<forall>m \<in> set ms. \<not> be (InsertMessage sid (content m))"
    and m: "m \<in> set ms"
  shows "\<exists>row \<in> set (syncHeyGenMessages be p now sid tbl).
           m_session_id row = sid \<and> message row = content m"
proof -
  let ?es = "filter (\<lambda>r. m_session_id r = sid) tbl"
  obtain rows where rows: "sync_loop be now sid (Some ?es) ms tbl = tbl @ rows"
    and stored: "list_all2 (stores sid) (filter (\<lambda>m. \<not> messageExists (Some ?es) m) ms) rows"
    using sync_loop_inserts [of ms be sid now "Some ?es" tbl] valid acc by blast
  have res: "syncHeyGenMessages be p now sid tbl = tbl @ rows"
    using sel fetch rows by (simp add: syncHeyGenMessages_def)
  show ?thesis
  proof (cases "messageExists (Some ?es) m")
    case True
    then obtain e where "e \<in> set tbl" "m_session_id e = sid" "message e = content m"
      by (auto simp: messageExists_def list_ex_iff)
    then show ?thesis unfolding res by auto
  next
    case False
    with m have "m \<in> set (filter (\<lambda>m. \<not> messageExists (Some ?es) m) ms)" by simp
    then obtain r where "r \<in> set rows" "stores sid m r"
      using list_all2_memD [OF stored] by blast
    then show ?thesis unfolding res by (auto simp: stores_def)
  qed
qed

lemma reconcile_messages_append:
  "\<exists>rows. messages (reconcile be p now ids ss db) = messages db @ rows"
proof (induction ss arbitrary: db)
  case Nil
  then show ?case by simp
next
  case (Cons s ss)
  show ?case
  proof (cases "session_id s \<in> set ids")
    case True
    let ?db = "db\<lparr>messages := syncHeyGenMessages be p now (session_id s) (messages db)\<rparr>"
    obtain rows1 where r1: "messages ?db = messages db @ rows1"
      using sync_appends [of be p now "session_id s" "messages db"] by auto
    obtain rows2 where "messages (reconcile be p now ids ss ?db) = messages ?db @ rows2"
      using Cons.IH [of ?db] by blast
    with r1 True show ?thesis by simp
  next
    case False
    then show ?thesis
      using Cons.IH [of "db\<lparr>sessions := snd (update_sessions be (completed_patch now)
                             (session_id s) (sessions db))\<rparr>"]
      by simp
  qed
qed

lemma reconcile_syncs:
  assumes s: "s \<in> set ss" and listed: "session_id s \<in> set ids"
    and sel: "\<not> be (SelectMessages (session_id s))"
    and fetch: "fetchHeyGenMessages p (session_id s) = Some ms"
    and valid: "\<forall>m \<in> set ms. hm_timestamp m \<noteq> None"
    and acc: "\<forall>m \<in> set ms. \<not> be (InsertMessage (session_id s) (content m))"
    and m: "m \<in> set ms"
  shows "\<exists>row \<in> set (messages (reconcile be p now ids ss db)).
           m_session_id row = session_id s \<and> message row = content m"
  using s
proof (induction ss arbitrary: db)
  case Nil
  then show ?case by simp
next
  case (Cons a ss)
  show ?case
  proof (cases "a = s")
    case True
    let ?db = "db\<lparr>messages := syncHeyGenMessages be p now (session_id s) (messages db)\<rparr>"
    obtain row where row: "row \<in> set (messages ?db)"
        "m_session_id row = session_id s" "message row = content m"
      using sync_stores_transcript [of be "session_id s" p ms m now "messages db"] sel fetch valid acc m
      by auto
    obtain rows where "messages (reconcile be p now ids ss ?db) = messages ?db @ rows"
      using reconcile_messages_append [of be p now ids ss ?db] by blast
    with row have "row \<in> set (messages (reconcile be p now ids ss ?db))" by simp
    with row(2,3) True listed show ?thesis by auto
  next
    case False
    with Cons.prems have "s \<in> set ss" by simp
    from Cons.IH [OF this] show ?thesis by simp
  qed
qed

text \<open>
  What a run of \<open>handleRefresh\<close> does in terms of the list the client hands it. Take a
  run that passes its guard and whose select succeeds, and a stored session with status
  \<open>active\<close>, \<open>connecting\<close> or \<open>connected\<close> and no \<open>end_time\<close>. The run ends without an
  error and keeps the rows' session ids. If the session's id is not in the list and the
  backend accepts the update, the session's rows afterwards have status \<open>completed\<close>,
  provider status \<open>completed\<close>, and \<open>end_time\<close> and \<open>last_sync_at\<close> set to the clock
  reading. If the id is in the list, the session's rows are the same as before in every
  field, and \<open>syncHeyGenMessages\<close> is run for it: when its select, fetch and inserts
  succeed, every message of the fetched transcript is stored for the session afterwards.
\<close>

lemma refresh_reconciles:
  assumes guard: "\<not> isRefreshing" and sel: "\<not> be SelectActiveSessions"
    and r: "r \<in> set (sessions db)" and act: "is_local_active r"
    and run: "handleRefresh be p now isRefreshing db = (out, db', sent)"
  shows "out = Done
     \<and> map session_id (sessions db') = map session_id (sessions db)
     \<and> (session_id r \<notin> set (activeHeygenSessionIds p) \<and> \<not> be (UpdateSession (session_id r))
          \<longrightarrow> (\<forall>r' \<in> set (sessions db'). session_id r' = session_id r \<longrightarrow>
                 status r' = Completed \<and> heygen_status r' = Some ''completed''
                 \<and> end_time r' = Some now \<and> last_sync_at r' = Some now))
     \<and> (session_id r \<in> set (activeHeygenSessionIds p)
          \<longrightarrow> filter (\<lambda>x. session_id x = session_id r) (sessions db')
                = filter (\<lambda>x. session_id x = session_id r) (sessions db)
            \<and> (\<not> be (SelectMessages (session_id r))
                 \<and> fetchHeyGenMessages p (session_id r) = Some ms
                 \<and> (\<forall>m \<in> set ms. hm_timestamp m \<noteq> None
                                    \<and> \<not> be (InsertMessage (session_id r) (content m)))
                 \<longrightarrow> (\<forall>m \<in> set ms. \<exists>row \<in> set (messages db').
                        m_session_id row = session_id r \<and> message row = content m)))"
proof -
  let ?ids = "activeHeygenSessionIds p"
  let ?ss = "filter is_local_active (sessions db)"
  have out: "out = Done" and db': "db' = reconcile be p now ?ids ?ss db"
    using handleRefresh_run [of isRefreshing be p now db] guard sel run by simp_all
  have sel_r: "r \<in> set ?ss" using r act by simp
  have ids: "map session_id (sessions db') = map session_id (sessions db)"
    unfolding db' by (rule reconcile_ids)
  have unlisted: "\<forall>r' \<in> set (sessions db'). session_id r' = session_id r \<longrightarrow>
                 status r' = Completed \<and> heygen_status r' = Some ''completed''
                 \<and> end_time r' = Some now \<and> last_sync_at r' = Some now"
    if "session_id r \<notin> set ?ids" "\<not> be (UpdateSession (session_id r))"
  proof -
    from reconcile_closes [of r ?ss ?ids be p now db] sel_r that
    show ?thesis unfolding db' closed_at_def by blast
  qed
  have listed_rows: "filter (\<lambda>x. session_id x = session_id r) (sessions db')
                = filter (\<lambda>x. session_id x = session_id r) (sessions db)"
    if "session_id r \<in> set ?ids"
    unfolding db' using that by (rule reconcile_listed_rows)
  have synced: "\<forall>m \<in> set ms. \<exists>row \<in> set (messages db').
                        m_session_id row = session_id r \<and> message row = content m"
    if "session_id r \<in> set ?ids" "\<not> be (SelectMessages (session_id r))"
       "fetchHeyGenMessages p (session_id r) = Some ms"
       "\<forall>m \<in> set ms. hm_timestamp m \<noteq> None
                                    \<and> \<not> be (InsertMessage (session_id r) (content m))"
  proof
    fix m assume m: "m \<in> set ms"
    have l: "session_id r \<in> set ?ids" using that(1) .
    have v: "\<forall>m \<in> set ms. hm_timestamp m \<noteq> None" using that(4) by blast
    have a: "\<forall>m \<in> set ms. \<not> be (InsertMessage (session_id r) (content m))"
      using that(4) by blast
    show "\<exists>row \<in> set (messages db'). m_session_id row = session_id r \<and> message row = content m"
      unfolding db' using reconcile_syncs [of r ?ss ?ids be p ms m now db] sel_r l that(2) that(3) v a m
      by blast
  qed
  from out ids unlisted listed_rows synced show ?thesis by blast
qed

lemma refresh_reconciles_example:
  "is_local_active row_a \<and> is_local_active row_b
   \<and> activeHeygenSessionIds (provider_of FetchFails FetchFails [listed_a] [msg_hi, msg_hello])
       = [''a'']
   \<and> handleRefresh accepts_all (provider_of FetchFails FetchFails [listed_a] [msg_hi, msg_hello])
         9000 False \<lparr>sessions = [row_a, row_b], messages = [stored_hi]\<rparr>
       = (Done,
          \<lparr>sessions = [row_a, completed_patch 9000 row_b], messages = [stored_hi, stored_hello]\<rparr>,
          [StreamingList])
   \<and> status (completed_patch 9000 row_b) = Completed
   \<and> end_time (completed_patch 9000 row_b) = Some 9000"
proof -
  let ?p = "provider_of FetchFails FetchFails [listed_a] [msg_hi, msg_hello]"
  let ?db = "\<lparr>sessions = [row_a, row_b], messages = [stored_hi]\<rparr>"
  let ?db' = "\<lparr>sessions = [row_a, completed_patch 9000 row_b],
               messages = [stored_hi, stored_hello]\<rparr>"
  have act: "is_local_active row_a" "is_local_active row_b"
    by (simp_all add: is_local_active_def row_a_def row_b_def)
  have key: "checkHeyGenApiKey ?p" by (simp add: checkHeyGenApiKey_def provider_of_def)
  have list: "getAllActiveSessions ?p = (Resolves [listed_a], [StreamingList])"
    using key by (simp add: getAllActiveSessions_def fetchHeyGenSessions_def provider_of_def)
  have hs: "map hs_session_id [listed_a] = [''a'']" by (simp add: listed_a_def)
  have ids: "activeHeygenSessionIds ?p = [''a'']"
    using hs by (simp add: activeHeygenSessionIds_def list)
  have sync: "syncHeyGenMessages accepts_all ?p 9000 ''a'' [stored_hi] = [stored_hi, stored_hello]"
    by (simp add: syncHeyGenMessages_def provider_of_def accepts_all_def messageExists_def
          new_row_def fresh_id_def msg_hi_def msg_hello_def stored_hi_def stored_hello_def)
  have upd: "snd (update_sessions accepts_all (completed_patch 9000) ''b'' [row_a, row_b])
               = [row_a, completed_patch 9000 row_b]"
    by (simp add: update_sessions_def accepts_all_def row_a_def row_b_def)
  have ida: "session_id row_a = ''a''" "session_id row_b = ''b''"
    by (simp_all add: row_a_def row_b_def)
  have run: "handleRefresh accepts_all ?p 9000 False ?db = (Done, ?db', [StreamingList])"
    using act hs
    by (simp add: handleRefresh_def list ida sync upd accepts_all_def [THEN fun_cong])
  have "\<not> False" "\<not> accepts_all SelectActiveSessions" "row_b \<in> set (sessions ?db)"
    by (simp_all add: accepts_all_def)
  from refresh_reconciles [OF this act(2) run, of "[msg_hi, msg_hello]"] ids
  have "\<forall>r' \<in> set [row_a, completed_patch 9000 row_b]. session_id r' = ''b'' \<longrightarrow>
          status r' = Completed \<and> end_time r' = Some 9000"
    by (simp add: ida accepts_all_def)
  then have "status (completed_patch 9000 row_b) = Completed"
    "end_time (completed_patch 9000 row_b) = Some 9000"
    by (simp_all add: ida completed_patch_fields)
  with act ids run show ?thesis by simp
qed

text \<open>
  C1 does not hold of \<open>handleRefresh\<close>: a session the provider lists as active is closed
  whenever the client cannot get the list. \<open>getAllActiveSessions\<close> then answers the empty
  list, and the refresh takes it for the provider's: it closes every locally active
  session and syncs none. In the module as it stands this is every run, as the URL of
  the list request cannot be built; with a bound URL it is a run without an API key or
  with a failed list request. In the example the provider lists session \<open>a\<close>.
\<close>

theorem refresh_closes_listed_session:
  "streaming_list (provider_of FetchFails FetchFails [listed_a] [msg_hi, msg_hello])
     = Response True (Parsed (ListValue (Some [listed_a])))
   \<and> hs_session_id listed_a = session_id row_a
   \<and> is_local_active row_a
   \<and> handleRefresh accepts_all
        (module_as_given (provider_of FetchFails FetchFails [listed_a] [msg_hi, msg_hello]))
        9000 False \<lparr>sessions = [row_a, row_b], messages = [stored_hi]\<rparr>
     = (Done,
        \<lparr>sessions = [completed_patch 9000 row_a, completed_patch 9000 row_b],
          messages = [stored_hi]\<rparr>,
        [])
   \<and> handleRefresh accepts_all
        (without_key (provider_of FetchFails FetchFails [listed_a] [msg_hi, msg_hello]))
        9000 False \<lparr>sessions = [row_a, row_b], messages = [stored_hi]\<rparr>
     = (Done,
        \<lparr>sessions = [completed_patch 9000 row_a, completed_patch 9000 row_b],
          messages = [stored_hi]\<rparr>,
        [])
   \<and> status (completed_patch 9000 row_a) = Completed
   \<and> end_time (completed_patch 9000 row_a) = Some 9000"
proof -
  let ?p = "provider_of FetchFails FetchFails [listed_a] [msg_hi, msg_hello]"
  let ?db = "\<lparr>sessions = [row_a, row_b], messages = [stored_hi]\<rparr>"
  let ?db' = "\<lparr>sessions = [completed_patch 9000 row_a, completed_patch 9000 row_b],
               messages = [stored_hi]\<rparr>"
  have act: "is_local_active row_a" "is_local_active row_b"
    by (simp_all add: is_local_active_def row_a_def row_b_def)
  have ida: "session_id row_a = ''a''" "session_id row_b = ''b''"
    by (simp_all add: row_a_def row_b_def)
  have given: "getAllActiveSessions (module_as_given ?p) = (Resolves [], [])"
    by (simp add: getAllActiveSessions_def fetchHeyGenSessions_def)
  have nokey: "getAllActiveSessions (without_key ?p) = (Resolves [], [])"
    by (simp add: getAllActiveSessions_def checkHeyGenApiKey_def without_key_def)
  have upd: "snd (update_sessions accepts_all (completed_patch 9000) ''b''
                (snd (update_sessions accepts_all (completed_patch 9000) ''a'' [row_a, row_b])))
               = [completed_patch 9000 row_a, completed_patch 9000 row_b]"
    by (simp add: update_sessions_def accepts_all_def ida completed_patch_fields)
  have run1: "handleRefresh accepts_all (module_as_given ?p) 9000 False ?db = (Done, ?db', [])"
    using act by (simp add: handleRefresh_def given ida upd accepts_all_def [THEN fun_cong])
  have run2: "handleRefresh accepts_all (without_key ?p) 9000 False ?db = (Done, ?db', [])"
    using act by (simp add: handleRefresh_def nokey ida upd accepts_all_def [THEN fun_cong])
  have "streaming_list ?p = Response True (Parsed (ListValue (Some [listed_a])))"
    by (simp add: provider_of_def)
  moreover have "hs_session_id listed_a = session_id row_a"
    by (simp add: listed_a_def row_a_def)
  ultimately show ?thesis
    using act run1 run2 by (simp add: completed_patch_fields)
qed

section \<open>Message counts of the statistics\<close>

lemma calculateAndStoreStats_Done:
  assumes "calculateAndStoreStats be js sid db stats = (Done, stats')"
  shows "\<exists>avg dur. stats' = stats @
           [\<lparr>st_session_id = sid,
             totalmessages = length (filter (\<lambda>m. m_session_id m = sid) (messages db)),
             usermessages = length (filter (\<lambda>m. sender m = ''user'')
                               (filter (\<lambda>m. m_session_id m = sid) (messages db))),
             avatarmessages = length (filter (\<lambda>m. sender m = ''avatar'')
                               (filter (\<lambda>m. m_session_id m = sid) (messages db))),
             averageresponsetime = avg, sessionduration = dur\<rparr>]"
  using assms
  by (auto simp: calculateAndStoreStats_def Let_def split: if_splits list.splits)

lemma calculateAndStoreStats_Done_iff:
  "fst (calculateAndStoreStats be js sid db stats) = Done \<longleftrightarrow>
     \<not> be (SelectMessages sid) \<and> \<not> be (SelectSession sid) \<and> \<not> be (InsertStats sid)
     \<and> length (filter (\<lambda>r. session_id r = sid) (sessions db)) = 1"
  by (auto simp: calculateAndStoreStats_def Let_def split: if_splits list.splits)

lemma count_two_senders:
  "\<forall>m \<in> set ms. sender m = ''user'' \<or> sender m = ''avatar'' \<Longrightarrow>
     length ms = length (filter (\<lambda>m. sender m = ''user'') ms)
               + length (filter (\<lambda>m. sender m = ''avatar'') ms)"
  by (induction ms) auto

text \<open>
  C7. When \<open>calculateAndStoreStats\<close> stores a row for a session, its \<open>totalmessages\<close>
  is the number of the session's messages, its \<open>usermessages\<close> the number of those with
  sender \<open>user\<close> and its \<open>avatarmessages\<close> the number of those with sender \<open>avatar\<close>;
  when every message of the session has one of the two senders, the total is the sum of
  the two. A row is stored exactly when the three requests are accepted and one session
  row has the id (\<open>calculateAndStoreStats_Done_iff\<close>).
\<close>

theorem stats_counts:
  assumes "calculateAndStoreStats be js sid db stats = (Done, stats')"
  shows "\<exists>row. stats' = stats @ [row] \<and> st_session_id row = sid
     \<and> totalmessages row = length (filter (\<lambda>m. m_session_id m = sid) (messages db))
     \<and> usermessages row
         = length (filter (\<lambda>m. m_session_id m = sid \<and> sender m = ''user'') (messages db))
     \<and> avatarmessages row
         = length (filter (\<lambda>m. m_session_id m = sid \<and> sender m = ''avatar'') (messages db))
     \<and> ((\<forall>m \<in> set (messages db). m_session_id m = sid \<longrightarrow>
             sender m = ''user'' \<or> sender m = ''avatar'')
          \<longrightarrow> totalmessages row = usermessages row + avatarmessages row)"
proof -
  let ?ms = "filter (\<lambda>m. m_session_id m = sid) (messages db)"
  obtain avg dur where row: "stats' = stats @
           [\<lparr>st_session_id = sid, totalmessages = length ?ms,
             usermessages = length (filter (\<lambda>m. sender m = ''user'') ?ms),
             avatarmessages = length (filter (\<lambda>m. sender m = ''avatar'') ?ms),
             averageresponsetime = avg, sessionduration = dur\<rparr>]"
    using calculateAndStoreStats_Done [OF assms] by blast
  have u: "filter (\<lambda>m. sender m = ''user'') ?ms
             = filter (\<lambda>m. m_session_id m = sid \<and> sender m = ''user'') (messages db)"
    and a: "filter (\<lambda>m. sender m = ''avatar'') ?ms
             = filter (\<lambda>m. m_session_id m = sid \<and> sender m = ''avatar'') (messages db)"
    by (simp_all add: conj_commute)
  have sum: "length ?ms = length (filter (\<lambda>m. sender m = ''user'') ?ms)
                        + length (filter (\<lambda>m. sender m = ''avatar'') ?ms)"
    if "\<forall>m \<in> set (messages db). m_session_id m = sid \<longrightarrow>
             sender m = ''user'' \<or> sender m = ''avatar''"
    using that by (intro count_two_senders) simp
  show ?thesis
    unfolding row using u a sum by (intro exI conjI) (rule refl, simp_all)
qed

theorem stats_counts_witness:
  "calculateAndStoreStats accepts_all plain_numbers ''a''
      \<lparr>sessions = [row_a, row_b], messages = [stored_hi, stored_hello]\<rparr> []
    = (Done, [\<lparr>st_session_id = ''a'', totalmessages = 2, usermessages = 1, avatarmessages = 1,
                averageresponsetime = 0, sessionduration = ''00:00:00''\<rparr>])
   \<and> sender stored_hi = ''user'' \<and> sender stored_hello = ''avatar''"
proof -
  let ?db = "\<lparr>sessions = [row_a, row_b], messages = [stored_hi, stored_hello]\<rparr>"
  let ?row = "\<lparr>st_session_id = ''a'', totalmessages = 2, usermessages = 1, avatarmessages = 1,
                averageresponsetime = 0::int, sessionduration = ''00:00:00''\<rparr>"
  have run: "calculateAndStoreStats accepts_all plain_numbers ''a'' ?db [] = (Done, [?row])"
    by (simp add: calculateAndStoreStats_def accepts_all_def plain_numbers_def duration_def
          row_a_def row_b_def stored_hi_def stored_hello_def)
  from stats_counts [OF run] obtain row where
    "[?row] = [] @ [row]" "totalmessages row = length (filter (\<lambda>m. m_session_id m = ''a'') (messages ?db))"
    by blast
  then have "totalmessages ?row = 2"
    by (simp add: stored_hi_def stored_hello_def)
  with run show ?thesis by (simp add: stored_hi_def stored_hello_def)
qed


section \<open>The average response time\<close>

text \<open>
  The number a stored row carries for a session with a duration: what the engine makes
  of the interval text.
\<close>

lemma stored_average:
  assumes "calculateAndStoreStats be js sid db stats = (Done, stats')"
    and "filter (\<lambda>r. session_id r = sid) (sessions db) = [s]"
    and "duration s = Some d" and "interval_text js d \<noteq> []"
  shows "averageresponsetime (last stats') = minutes_of_text js (interval_text js d)
       \<and> sessionduration (last stats') = interval_text js d"
  using assms
  by (auto simp: calculateAndStoreStats_def Let_def split: if_splits)

text \<open>
  C6 does not hold of \<open>calculateAndStoreStats\<close>: the duration is an interval text, and
  the code hands it to \<open>Date.parse\<close>, which reads dates. For the completed session of
  the example the duration is 323000 ms, the text is \<open>00:05:23\<close>, and the number stored
  is \<open>NaN\<close>, not the 323/60 minutes of the session.
\<close>

theorem average_response_time_not_minutes:
  "duration row_done = Some 323000
   \<and> interval_text nan_engine 323000 = ''00:05:23''
   \<and> calculateAndStoreStats accepts_all nan_engine ''d''
        \<lparr>sessions = [row_a, row_done], messages = [stored_hi]\<rparr> []
     = (Done, [\<lparr>st_session_id = ''d'', totalmessages = 0, usermessages = 0,
                avatarmessages = 0, averageresponsetime = None,
                sessionduration = ''00:05:23''\<rparr>])
   \<and> (None :: rat option) \<noteq> Some (323000 / 60000)"
proof -
  have d: "duration row_done = Some 323000"
    by (simp add: duration_def row_done_def row_a_def)
  have t: "interval_text nan_engine 323000 = ''00:05:23''"
    by (simp add: nan_engine_def hms_def two_digits_def)
  have ids: "session_id row_a = ''a''" "session_id row_done = ''d''"
    by (simp_all add: row_done_def row_a_def)
  have m: "m_session_id stored_hi = ''a''" by (simp add: stored_hi_def)
  have "calculateAndStoreStats accepts_all nan_engine ''d''
        \<lparr>sessions = [row_a, row_done], messages = [stored_hi]\<rparr> []
     = (Done, [\<lparr>st_session_id = ''d'', totalmessages = 0, usermessages = 0,
                avatarmessages = 0, averageresponsetime = None,
                sessionduration = ''00:05:23''\<rparr>])"
    by (simp add: calculateAndStoreStats_def accepts_all_def ids m d t)
       (simp add: nan_engine_def)
  with d t show ?thesis by simp
qed

end
